theory Spec2Isabelle
  imports Main "HOL-Library.AList"
begin

section \<open>JavaScript values that cross the wire\<close>

text \<open>
  Event payloads and request bodies are untyped at run time (\<^verbatim>\<open>data: any\<close>), so the
  handlers are modelled on a small universe of JSON values. Numbers are left out: no
  handler of the server inspects one. An object is an association list whose first
  binding of a key is the property's value.
\<close>

datatype jsval = Undefined | Null | Bool bool | Str string | Obj "(string \<times> jsval) list"

text \<open>Truthiness, as tested by \<^verbatim>\<open>if (v)\<close>, \<^verbatim>\<open>!v\<close> and \<^verbatim>\<open>v || d\<close>.\<close>

fun truthy :: "jsval \<Rightarrow> bool" where
  "truthy Undefined = False"
| "truthy Null = False"
| "truthy (Bool b) = b"
| "truthy (Str s) = (s \<noteq> [])"
| "truthy (Obj fs) = True"

text \<open>
  \<^verbatim>\<open>data.f\<close> and destructuring \<^verbatim>\<open>const { f } = data\<close>: a TypeError (\<open>None\<close>) on
  \<^verbatim>\<open>undefined\<close> and \<^verbatim>\<open>null\<close>, \<^verbatim>\<open>undefined\<close> on a primitive or on an object without
  the property. \<^verbatim>\<open>data?.f\<close> yields \<^verbatim>\<open>undefined\<close> instead of throwing.
\<close>

fun get_prop :: "jsval \<Rightarrow> string \<Rightarrow> jsval option" where
  "get_prop Undefined f = None"
| "get_prop Null f = None"
| "get_prop (Bool b) f = Some Undefined"
| "get_prop (Str s) f = Some Undefined"
| "get_prop (Obj fs) f = (case map_of fs f of None \<Rightarrow> Some Undefined | Some v \<Rightarrow> Some v)"

definition optprop :: "jsval \<Rightarrow> string \<Rightarrow> jsval" where
  "optprop d f = (case get_prop d f of None \<Rightarrow> Undefined | Some v \<Rightarrow> v)"

text \<open>
  Conversion to a string, as a template literal \<^verbatim>\<open>`${v}`\<close> does it, raises a TypeError
  exactly for an object that carries its own \<open>toString\<close> property: the property of a
  JSON value is not callable, and the inherited \<open>valueOf\<close> returns the object itself.
  Every other value converts.
\<close>

fun string_throws :: "jsval \<Rightarrow> bool" where
  "string_throws (Obj fs) = (map_of fs ''toString'' \<noteq> None)"
| "string_throws v = False"

text \<open>
  \<^verbatim>\<open>String.prototype.toUpperCase\<close> is a built-in whose case mapping covers all of
  Unicode and can change the length of a string. It is not part of the program, so every
  function that calls it takes it as its first argument \<open>toUpperCase\<close>, and what is
  proved holds for whatever the built-in does. \<open>toUpperCase_ascii\<close> is the built-in on
  strings of ASCII characters, which is what the example states use.
\<close>

definition toUpperCase_char :: "char \<Rightarrow> char" where
  "toUpperCase_char c =
     (let n = (of_char c :: nat) in if 97 \<le> n \<and> n \<le> 122 then char_of (n - 32) else c)"

definition toUpperCase_ascii :: "string \<Rightarrow> string" where
  "toUpperCase_ascii s = map toUpperCase_char s"

text \<open>\<^verbatim>\<open>Number.prototype.toString(36)\<close> on an integer.\<close>

definition digit36 :: "nat \<Rightarrow> char" where
  "digit36 d = (if d < 10 then char_of (48 + d) else char_of (87 + d))"

function toString36 :: "int \<Rightarrow> string" where
  "toString36 n =
     (if n < 0 then CHR ''-'' # toString36 (- n)
      else if n < 36 then [digit36 (nat n)]
      else toString36 (n div 36) @ [digit36 (nat (n mod 36))])"
  by pat_completeness auto
termination
  by (relation "measure (\<lambda>n. if n < 0 then 2 * nat (- n) + 1 else 2 * nat n)") auto

section \<open>The server: room table, connection pool, broadcast groups\<close>

record UserData =
  id_user :: string
  name_user :: jsval
  joinedAt :: int

record RoomData =
  id_room :: string
  name_room :: jsval
  isPrivate :: jsval
  createdAt :: int
  users :: "UserData list"
  canvasData :: jsval
  lastActivity :: "int option"

text \<open>
  \<open>rooms\<close> is the \<^verbatim>\<open>Map<string, RoomData>\<close> in insertion order. \<open>sockets\<close> is the pool of
  live connections, \<open>adapter\<close> the broadcast groups of socket.io as pairs (socket id,
  group name), and \<open>timers\<close> the pending \<^verbatim>\<open>setTimeout\<close> callbacks as pairs (due time,
  room id). Dates are milliseconds since the epoch.
\<close>

record server =
  rooms :: "(string \<times> RoomData) list"
  sockets :: "string list"
  adapter :: "(string \<times> string) list"
  timers :: "(int \<times> string) list"

datatype payload =
    RoomNotFound string "string list"
  | RoomErrorFailed
  | RoomJoined string jsval "UserData list"
  | LoadCanvas jsval
  | UserJoined UserData "UserData list"
  | UserLeft UserData "UserData list"
  | Drawing jsval
  | ClearCanvas
  | UndoSignal
  | RedoSignal

type_synonym emission = "string \<times> payload"

text \<open>
  \<^verbatim>\<open>socket.to(g)\<close>: every live connection registered under group \<open>g\<close> except the sender;
  \<^verbatim>\<open>socket.broadcast\<close>: every live connection except the sender.
\<close>

definition to_room :: "server \<Rightarrow> string \<Rightarrow> string \<Rightarrow> string list" where
  "to_room s sid g = filter (\<lambda>t. t \<noteq> sid \<and> (t, g) \<in> set (adapter s)) (sockets s)"

fun socket_to :: "server \<Rightarrow> string \<Rightarrow> jsval \<Rightarrow> string list" where
  "socket_to s sid (Str g) = to_room s sid g"
| "socket_to s sid k = []"

definition broadcast :: "server \<Rightarrow> string \<Rightarrow> string list" where
  "broadcast s sid = filter (\<lambda>t. t \<noteq> sid) (sockets s)"

definition emit_to :: "string list \<Rightarrow> payload \<Rightarrow> emission list" where
  "emit_to ts p = map (\<lambda>t. (t, p)) ts"

text \<open>A new connection enters the pool and the group named by its own id.\<close>

definition connection :: "string \<Rightarrow> server \<Rightarrow> server" where
  "connection sid s =
     s\<lparr>sockets := List.insert sid (sockets s), adapter := List.insert (sid, sid) (adapter s)\<rparr>"

subsection \<open>Identifier generation and room creation\<close>

text \<open>
  \<open>generateRoomId\<close> reads the clock and the random source; the pair
  (\<^verbatim>\<open>Date.now()\<close>, \<^verbatim>\<open>Math.random().toString(36)\<close>) is its argument.
\<close>

definition generateRoomId :: "(string \<Rightarrow> string) \<Rightarrow> int \<times> string \<Rightarrow> string" where
  "generateRoomId toUpperCase rd =
     (let ts = toString36 (fst rd);
          timestamp = drop (length ts - 3) ts;
          random = take 3 (drop 2 (snd rd))
      in take 6 (toUpperCase (timestamp @ random)))"

text \<open>
  The retry loop of \<^verbatim>\<open>POST /api/rooms\<close>; \<open>rd k\<close> is what the \<open>k\<close>-th call of
  \<open>generateRoomId\<close> within the request reads.
\<close>

function retry_loop ::
  "(string \<Rightarrow> string) \<Rightarrow> (string \<times> RoomData) list \<Rightarrow> (nat \<Rightarrow> int \<times> string)
     \<Rightarrow> string \<Rightarrow> nat \<Rightarrow> string" where
  "retry_loop toUpperCase rs rd roomId attempts =
     (if map_of rs roomId \<noteq> None \<and> attempts < 10
      then retry_loop toUpperCase rs rd (generateRoomId toUpperCase (rd (Suc attempts)))
             (Suc attempts)
      else roomId)"
  by pat_completeness auto
termination
  by (relation "measure (\<lambda>(toUpperCase, rs, rd, roomId, attempts). 10 - attempts)") auto

declare retry_loop.simps [simp del]

text \<open>
  \<^verbatim>\<open>POST /api/rooms\<close>. Destructuring a missing body throws before anything is stored.
  The log line after \<^verbatim>\<open>rooms.set\<close> converts the room name to a string; when that
  throws, the room is already stored and the answer is the 500 of the catch block.
\<close>

datatype response = Created string jsval nat | Failed500

definition post_api_rooms ::
  "(string \<Rightarrow> string) \<Rightarrow> int \<Rightarrow> (nat \<Rightarrow> int \<times> string) \<Rightarrow> jsval \<Rightarrow> server
     \<Rightarrow> server \<times> response" where
  "post_api_rooms toUpperCase now rd body s =
     (let roomId = retry_loop toUpperCase (rooms s) rd (generateRoomId toUpperCase (rd 0)) 0 in
      case get_prop body ''roomName'' of
        None \<Rightarrow> (s, Failed500)
      | Some roomName \<Rightarrow>
          let isPriv = optprop body ''isPrivate'';
              newRoom = \<lparr>id_room = roomId,
                         name_room = (if truthy roomName then roomName else Str (''Room '' @ roomId)),
                         isPrivate = (if truthy isPriv then isPriv else Bool False),
                         createdAt = now, users = [], canvasData = Null,
                         lastActivity = Some now\<rparr>;
              rooms' = AList.update roomId newRoom (rooms s)
          in if string_throws (name_room newRoom) then (s\<lparr>rooms := rooms'\<rparr>, Failed500)
             else (s\<lparr>rooms := rooms'\<rparr>, Created roomId (name_room newRoom) (length rooms')))"

subsection \<open>The per-connection event handlers\<close>

text \<open>
  \<^verbatim>\<open>const room = rooms.get(k); if (room) { ... }\<close> with the body mutating the room
  object held by the table. A key that is not a string matches no entry.
\<close>

fun rooms_modify ::
  "(RoomData \<Rightarrow> RoomData) \<Rightarrow> jsval \<Rightarrow> (string \<times> RoomData) list \<Rightarrow> (string \<times> RoomData) list" where
  "rooms_modify f (Str r) rs =
     (case map_of rs r of None \<Rightarrow> rs | Some room \<Rightarrow> AList.update r (f room) rs)"
| "rooms_modify f k rs = rs"

text \<open>
  Join. Whatever throws inside the handler is caught and answered with the room-error
  \<open>Failed to join room\<close>: destructuring a missing payload, \<^verbatim>\<open>roomId.toUpperCase()\<close> on
  a \<open>roomId\<close> that is not a string, and the first log line, which converts \<open>userName\<close>
  to a string before the room is tested. All of them precede every change of state.
\<close>

definition on_join_room ::
  "(string \<Rightarrow> string) \<Rightarrow> int \<Rightarrow> string \<Rightarrow> jsval \<Rightarrow> server \<Rightarrow> server \<times> emission list" where
  "on_join_room toUpperCase now sid data s =
     (case get_prop data ''roomId'' of
        Some (Str roomId) \<Rightarrow>
          let userName = optprop data ''userName'';
              upperRoomId = toUpperCase roomId
          in if string_throws userName then (s, [(sid, RoomErrorFailed)])
             else
             (case map_of (rooms s) upperRoomId of
                None \<Rightarrow> (s, [(sid, RoomNotFound upperRoomId (map fst (rooms s)))])
              | Some room \<Rightarrow>
                  let user = \<lparr>id_user = sid,
                              name_user = (if truthy userName then userName else Str ''Anonymous''),
                              joinedAt = now\<rparr>;
                      room' = room\<lparr>users := users room @ [user], lastActivity := Some now\<rparr>;
                      s' = s\<lparr>rooms := AList.update upperRoomId room' (rooms s),
                             adapter := List.insert (sid, upperRoomId) (adapter s)\<rparr>
                  in (s', [(sid, RoomJoined upperRoomId (name_room room') (users room'))]
                          @ (if truthy (canvasData room')
                             then [(sid, LoadCanvas (canvasData room'))] else [])
                          @ emit_to (to_room s' sid upperRoomId) (UserJoined user (users room'))))
      | _ \<Rightarrow> (s, [(sid, RoomErrorFailed)]))"

definition on_drawing :: "int \<Rightarrow> string \<Rightarrow> jsval \<Rightarrow> server \<Rightarrow> server \<times> emission list" where
  "on_drawing now sid data s =
     (case get_prop data ''roomId'' of
        None \<Rightarrow> (s, [])
      | Some roomId \<Rightarrow>
          if truthy roomId then
            (s\<lparr>rooms := rooms_modify (\<lambda>room. room\<lparr>lastActivity := Some now\<rparr>) roomId (rooms s)\<rparr>,
             emit_to (socket_to s sid roomId) (Drawing data))
          else (s, emit_to (broadcast s sid) (Drawing data)))"

definition on_clear_canvas :: "int \<Rightarrow> string \<Rightarrow> jsval \<Rightarrow> server \<Rightarrow> server \<times> emission list" where
  "on_clear_canvas now sid data s =
     (let roomId = optprop data ''roomId'' in
      if truthy roomId then
        (s\<lparr>rooms := rooms_modify (\<lambda>room. room\<lparr>canvasData := Null, lastActivity := Some now\<rparr>)
                      roomId (rooms s)\<rparr>,
         emit_to (socket_to s sid roomId) ClearCanvas)
      else (s, emit_to (broadcast s sid) ClearCanvas))"

definition on_undo :: "string \<Rightarrow> jsval \<Rightarrow> server \<Rightarrow> server \<times> emission list" where
  "on_undo sid data s =
     (let roomId = optprop data ''roomId'' in
      if truthy roomId then (s, emit_to (socket_to s sid roomId) UndoSignal)
      else (s, emit_to (broadcast s sid) UndoSignal))"

definition on_redo :: "string \<Rightarrow> jsval \<Rightarrow> server \<Rightarrow> server \<times> emission list" where
  "on_redo sid data s =
     (let roomId = optprop data ''roomId'' in
      if truthy roomId then (s, emit_to (socket_to s sid roomId) RedoSignal)
      else (s, emit_to (broadcast s sid) RedoSignal))"

definition on_save_canvas_state ::
  "int \<Rightarrow> string \<Rightarrow> jsval \<Rightarrow> server \<Rightarrow> server \<times> emission list" where
  "on_save_canvas_state now sid data s =
     (case get_prop data ''roomId'' of
        None \<Rightarrow> (s, [])
      | Some roomId \<Rightarrow>
          let cd = optprop data ''canvasData'' in
          (s\<lparr>rooms := rooms_modify (\<lambda>room. room\<lparr>canvasData := cd, lastActivity := Some now\<rparr>)
                        roomId (rooms s)\<rparr>, []))"

text \<open>
  Disconnect. socket.io has taken the connection out of the pool and of every group
  when the handler runs. The handler visits every room in table order; \<open>findIndex\<close> and
  \<open>splice\<close> remove the first user record carrying the socket id. The log line after the
  user-left emission converts the user's name to a string; when that throws, the visit
  of the rooms ends there: no timer is set for the room and the rooms after it are not
  visited.
\<close>

fun findIndex :: "string \<Rightarrow> UserData list \<Rightarrow> nat option" where
  "findIndex sid [] = None"
| "findIndex sid (u # us) =
     (if id_user u = sid then Some 0 else map_option Suc (findIndex sid us))"

definition splice1 :: "nat \<Rightarrow> 'a list \<Rightarrow> 'a list" where
  "splice1 i xs = take i xs @ drop (Suc i) xs"

definition grace :: int where
  "grace = 3600000"

fun leave_rooms ::
  "int \<Rightarrow> string \<Rightarrow> server \<Rightarrow> (string \<times> RoomData) list
     \<Rightarrow> (string \<times> RoomData) list \<times> emission list \<times> (int \<times> string) list" where
  "leave_rooms now sid s [] = ([], [], [])"
| "leave_rooms now sid s ((roomId, room) # rest) =
     (case findIndex sid (users room) of
        None \<Rightarrow>
          (let (rest', out, tms) = leave_rooms now sid s rest
           in ((roomId, room) # rest', out, tms))
      | Some userIndex \<Rightarrow>
          let user = users room ! userIndex;
              room' = room\<lparr>users := splice1 userIndex (users room), lastActivity := Some now\<rparr>;
              left = emit_to (to_room s sid roomId) (UserLeft user (users room'))
          in if string_throws (name_user user) then ((roomId, room') # rest, left, [])
             else (let (rest', out, tms) = leave_rooms now sid s rest
                   in ((roomId, room') # rest',
                       left @ out,
                       (if users room' = [] then [(now + grace, roomId)] else []) @ tms)))"

definition on_disconnect :: "int \<Rightarrow> string \<Rightarrow> server \<Rightarrow> server \<times> emission list" where
  "on_disconnect now sid s0 =
     (let s = s0\<lparr>sockets := removeAll sid (sockets s0),
                 adapter := filter (\<lambda>m. fst m \<noteq> sid) (adapter s0)\<rparr>;
          (rooms', out, tms) = leave_rooms now sid s (rooms s)
      in (s\<lparr>rooms := rooms', timers := timers s @ tms\<rparr>, out))"

text \<open>
  The callback handed to \<^verbatim>\<open>setTimeout\<close>, run at time \<open>now\<close>, and the firing of a pending
  timer, which the event loop does no earlier than its due time.
\<close>

definition cleanup_callback :: "int \<Rightarrow> string \<Rightarrow> server \<Rightarrow> server" where
  "cleanup_callback now roomId s =
     (case map_of (rooms s) roomId of
        None \<Rightarrow> s
      | Some currentRoom \<Rightarrow>
          if users currentRoom = [] then
            (let timeSinceActivity =
                   now - (case lastActivity currentRoom of None \<Rightarrow> 0 | Some t \<Rightarrow> t)
             in if timeSinceActivity > grace
                then s\<lparr>rooms := AList.delete roomId (rooms s)\<rparr> else s)
          else s)"

definition fire_timer :: "int \<Rightarrow> int \<times> string \<Rightarrow> server \<Rightarrow> server" where
  "fire_timer now tm s =
     (if tm \<in> set (timers s) \<and> fst tm \<le> now
      then cleanup_callback now (snd tm) (s\<lparr>timers := remove1 tm (timers s)\<rparr>)
      else s)"

text \<open>
  Dispatch of an inbound event by name. An event for which no listener is registered
  is dropped.
\<close>

definition server_on ::
  "(string \<Rightarrow> string) \<Rightarrow> int \<Rightarrow> string \<Rightarrow> string \<Rightarrow> jsval \<Rightarrow> server
     \<Rightarrow> server \<times> emission list" where
  "server_on toUpperCase now sid ev data s =
     (if ev = ''join-room'' then on_join_room toUpperCase now sid data s
      else if ev = ''drawing'' then on_drawing now sid data s
      else if ev = ''clear-canvas'' then on_clear_canvas now sid data s
      else if ev = ''undo'' then on_undo sid data s
      else if ev = ''redo'' then on_redo sid data s
      else if ev = ''save-canvas-state'' then on_save_canvas_state now sid data s
      else if ev = ''disconnect'' then on_disconnect now sid s
      else (s, []))"

subsection \<open>Runs of the server\<close>

text \<open>
  What the event loop can do next: accept a connection, deliver an inbound event of a
  connection, serve a \<^verbatim>\<open>POST /api/rooms\<close>, or fire a pending timer. Each step carries
  the clock reading at which it runs.
\<close>

datatype step =
    Connect string
  | Inbound string string jsval
  | Post "nat \<Rightarrow> int \<times> string" jsval
  | Fire "int \<times> string"

fun step_server :: "(string \<Rightarrow> string) \<Rightarrow> int \<times> step \<Rightarrow> server \<Rightarrow> server" where
  "step_server toUpperCase (now, Connect sid) s = connection sid s"
| "step_server toUpperCase (now, Inbound sid ev data) s =
     fst (server_on toUpperCase now sid ev data s)"
| "step_server toUpperCase (now, Post rd body) s = fst (post_api_rooms toUpperCase now rd body s)"
| "step_server toUpperCase (now, Fire tm) s = fire_timer now tm s"

definition run_server :: "(string \<Rightarrow> string) \<Rightarrow> (int \<times> step) list \<Rightarrow> server \<Rightarrow> server" where
  "run_server toUpperCase tr s = fold (step_server toUpperCase) tr s"

text \<open>
  The stored snapshot of a room, and the steps that, taken in state \<open>s\<close>, are neither a
  clear or a save for room \<open>rid\<close> nor register \<open>rid\<close> anew: every step except a clear or
  a save whose payload names \<open>rid\<close>, and except a creation request that stores a room
  under \<open>rid\<close>, which it does when its body can be destructured and its retry loop
  returns \<open>rid\<close>. A run is quiet for \<open>rid\<close> when each of its steps is such a step in
  the state it is taken in. The name of the event carried by an emission, and the
  recipients and event names of a list of emissions.
\<close>

fun leaves_snapshot :: "(string \<Rightarrow> string) \<Rightarrow> string \<Rightarrow> int \<times> step \<Rightarrow> server \<Rightarrow> bool" where
  "leaves_snapshot toUpperCase rid (now, Connect sid) s = True"
| "leaves_snapshot toUpperCase rid (now, Inbound sid ev data) s =
     (if ev = ''clear-canvas'' \<or> ev = ''save-canvas-state''
      then optprop data ''roomId'' \<noteq> Str rid else True)"
| "leaves_snapshot toUpperCase rid (now, Post rd body) s =
     (get_prop body ''roomName'' = None
      \<or> retry_loop toUpperCase (rooms s) rd (generateRoomId toUpperCase (rd 0)) 0 \<noteq> rid)"
| "leaves_snapshot toUpperCase rid (now, Fire tm) s = True"

fun quiet_run :: "(string \<Rightarrow> string) \<Rightarrow> string \<Rightarrow> (int \<times> step) list \<Rightarrow> server \<Rightarrow> bool" where
  "quiet_run toUpperCase rid [] s = True"
| "quiet_run toUpperCase rid (st # tr) s =
     (leaves_snapshot toUpperCase rid st s
      \<and> quiet_run toUpperCase rid tr (step_server toUpperCase st s))"

definition snapshot_of :: "server \<Rightarrow> string \<Rightarrow> jsval option" where
  "snapshot_of s rid = map_option canvasData (map_of (rooms s) rid)"

definition payload_name :: "payload \<Rightarrow> string" where
  "payload_name p =
     (case p of
        RoomNotFound r ks \<Rightarrow> ''room-error''
      | RoomErrorFailed \<Rightarrow> ''room-error''
      | RoomJoined r n us \<Rightarrow> ''room-joined''
      | LoadCanvas v \<Rightarrow> ''load-canvas''
      | UserJoined u us \<Rightarrow> ''user-joined''
      | UserLeft u us \<Rightarrow> ''user-left''
      | Drawing d \<Rightarrow> ''drawing''
      | ClearCanvas \<Rightarrow> ''clear-canvas''
      | UndoSignal \<Rightarrow> ''undo''
      | RedoSignal \<Rightarrow> ''redo'')"

definition emission_names :: "emission list \<Rightarrow> (string \<times> string) list" where
  "emission_names out = map (\<lambda>e. (fst e, payload_name (snd e))) out"

section \<open>The client: canvas history of the Whiteboard component\<close>

text \<open>
  The state of one Whiteboard: \<open>canvas\<close> is the rendered surface behind
  \<^verbatim>\<open>canvasRef.current\<close> (\<open>None\<close> when the element or its 2d context is missing),
  \<open>history\<close> and \<open>historyIndex\<close> are the React state, \<open>canEdit\<close> is
  \<^verbatim>\<open>user?.role !== 'viewer'\<close>, and \<open>room_id\<close> is \<^verbatim>\<open>room.id\<close> when both \<^verbatim>\<open>socket\<close> and
  \<^verbatim>\<open>room\<close> are present. Surfaces are opaque values of type \<open>'px\<close>; the drawing
  primitives are parameters of the functions that use them.

  Every function of the component is a closure of the render that created it: the
  \<open>history\<close> and \<open>historyIndex\<close> it reads are the values \<open>seen\<close> by that render, and
  the values it hands to \<^verbatim>\<open>setHistory\<close> and \<^verbatim>\<open>setHistoryIndex\<close> become the new state.
  A toolbar or mouse handler belongs to the latest render and sees the current state
  (\<open>seen_now\<close>).
\<close>

record 'px whiteboard =
  canvas :: "'px option"
  history :: "'px list"
  historyIndex :: int
  canEdit :: bool
  room_id :: "string option"

type_synonym client_emission = "string \<times> jsval"

text \<open>\<^verbatim>\<open>xs.slice(0, e)\<close>, where a negative \<open>e\<close> counts from the end, and \<^verbatim>\<open>xs[i]\<close>.\<close>

definition slice0 :: "int \<Rightarrow> 'a list \<Rightarrow> 'a list" where
  "slice0 e xs = (if e < 0 then take (length xs - nat (- e)) xs else take (nat e) xs)"

definition js_index :: "'a list \<Rightarrow> int \<Rightarrow> 'a option" where
  "js_index xs i = (if 0 \<le> i \<and> i < int (length xs) then Some (xs ! nat i) else None)"

definition seen_now :: "'px whiteboard \<Rightarrow> 'px list \<times> int" where
  "seen_now w = (history w, historyIndex w)"

definition saveToHistory :: "'px list \<times> int \<Rightarrow> 'px whiteboard \<Rightarrow> 'px whiteboard" where
  "saveToHistory seen w =
     (case canvas w of
        None \<Rightarrow> w
      | Some imageData \<Rightarrow>
          let pushed = slice0 (snd seen + 1) (fst seen) @ [imageData];
              newHistory = (if length pushed > 50 then tl pushed else pushed)
          in w\<lparr>history := newHistory, historyIndex := int (length newHistory) - 1\<rparr>)"

text \<open>
  \<open>undo\<close> and \<open>redo\<close>. \<^verbatim>\<open>putImageData\<close> of a missing snapshot throws after the index
  has been set; nothing is rendered or emitted then.
\<close>

definition canvas_state :: "('px \<Rightarrow> string) \<Rightarrow> 'px \<Rightarrow> 'px whiteboard \<Rightarrow> client_emission list" where
  "canvas_state toDataURL px w =
     (case room_id w of
        None \<Rightarrow> []
      | Some rid \<Rightarrow>
          [(''canvas-state'', Obj [(''roomId'', Str rid), (''imageData'', Str (toDataURL px))])])"

definition undo :: "('px \<Rightarrow> string) \<Rightarrow> 'px whiteboard \<Rightarrow> 'px whiteboard \<times> client_emission list" where
  "undo toDataURL w =
     (if historyIndex w > 0 \<and> canEdit w then
        (case canvas w of
           None \<Rightarrow> (w, [])
         | Some current \<Rightarrow>
             (case js_index (history w) (historyIndex w - 1) of
                None \<Rightarrow> (w\<lparr>historyIndex := historyIndex w - 1\<rparr>, [])
              | Some px \<Rightarrow>
                  (w\<lparr>historyIndex := historyIndex w - 1, canvas := Some px\<rparr>,
                   canvas_state toDataURL px w)))
      else (w, []))"

definition redo :: "('px \<Rightarrow> string) \<Rightarrow> 'px whiteboard \<Rightarrow> 'px whiteboard \<times> client_emission list" where
  "redo toDataURL w =
     (if historyIndex w < int (length (history w)) - 1 \<and> canEdit w then
        (case canvas w of
           None \<Rightarrow> (w, [])
         | Some current \<Rightarrow>
             (case js_index (history w) (historyIndex w + 1) of
                None \<Rightarrow> (w\<lparr>historyIndex := historyIndex w + 1\<rparr>, [])
              | Some px \<Rightarrow>
                  (w\<lparr>historyIndex := historyIndex w + 1, canvas := Some px\<rparr>,
                   canvas_state toDataURL px w)))
      else (w, []))"

text \<open>\<open>clearCanvas\<close>; \<open>white\<close> is the surface left by filling the canvas white.\<close>

definition clearCanvas ::
  "'px \<Rightarrow> bool \<Rightarrow> 'px list \<times> int \<Rightarrow> 'px whiteboard \<Rightarrow> 'px whiteboard \<times> client_emission list" where
  "clearCanvas white emit seen w =
     (if \<not> canEdit w \<and> emit then (w, [])
      else case canvas w of
        None \<Rightarrow> (w, [])
      | Some current \<Rightarrow>
          (saveToHistory seen (w\<lparr>canvas := Some white\<rparr>),
           if emit then (case room_id w of None \<Rightarrow> [] | Some rid \<Rightarrow> [(''clear-canvas'', Str rid)])
           else []))"

text \<open>
  The socket listeners. They are registered once per socket inside an effect, so the
  \<open>clearCanvas\<close> they call is the closure of the render that registered them, and what
  it has \<open>seen\<close> need not be the current state. \<open>drawOnCanvas\<close> and the image load of a
  data URL are rendering primitives.
\<close>

definition listen_drawing :: "(jsval \<Rightarrow> 'px \<Rightarrow> 'px) \<Rightarrow> jsval \<Rightarrow> 'px whiteboard \<Rightarrow> 'px whiteboard" where
  "listen_drawing drawOnCanvas data w = w\<lparr>canvas := map_option (drawOnCanvas data) (canvas w)\<rparr>"

definition listen_clear_canvas :: "'px \<Rightarrow> 'px list \<times> int \<Rightarrow> 'px whiteboard \<Rightarrow> 'px whiteboard" where
  "listen_clear_canvas white seen w =
     fst (clearCanvas white False seen w)"

definition listen_canvas_state :: "(jsval \<Rightarrow> 'px \<Rightarrow> 'px) \<Rightarrow> jsval \<Rightarrow> 'px whiteboard \<Rightarrow> 'px whiteboard" where
  "listen_canvas_state drawImage imageData w =
     w\<lparr>canvas := map_option (drawImage imageData) (canvas w)\<rparr>"

text \<open>
  Local operations on the history: a committed edit leaves \<open>px\<close> on the canvas and
  calls \<open>saveToHistory\<close>; the toolbar calls \<open>undo\<close> and \<open>redo\<close>.
\<close>

datatype 'px hist_op = Commit 'px | Undo | Redo

fun apply_op :: "('px \<Rightarrow> string) \<Rightarrow> 'px hist_op \<Rightarrow> 'px whiteboard \<Rightarrow> 'px whiteboard" where
  "apply_op toDataURL (Commit px) w =
     saveToHistory (seen_now w) (w\<lparr>canvas := map_option (\<lambda>c. px) (canvas w)\<rparr>)"
| "apply_op toDataURL Undo w = fst (undo toDataURL w)"
| "apply_op toDataURL Redo w = fst (redo toDataURL w)"

definition run_ops :: "('px \<Rightarrow> string) \<Rightarrow> 'px hist_op list \<Rightarrow> 'px whiteboard \<Rightarrow> 'px whiteboard" where
  "run_ops toDataURL ops w = fold (apply_op toDataURL) ops w"

definition hist_inv :: "'px whiteboard \<Rightarrow> bool" where
  "hist_inv w \<longleftrightarrow>
     length (history w) \<le> 50 \<and>
     (if history w = [] then historyIndex w = - 1
      else 0 \<le> historyIndex w \<and> historyIndex w < int (length (history w)))"

section \<open>Client and server together\<close>

text \<open>
  What a client emits on its socket arrives at the server as an inbound event of that
  connection, with the same event name and payload.
\<close>

fun deliver ::
  "(string \<Rightarrow> string) \<Rightarrow> int \<Rightarrow> string \<Rightarrow> client_emission list \<Rightarrow> server
     \<Rightarrow> server \<times> emission list" where
  "deliver toUpperCase now sid [] s = (s, [])"
| "deliver toUpperCase now sid ((ev, data) # es) s =
     (let (s', out) = server_on toUpperCase now sid ev data s;
          (s'', out') = deliver toUpperCase now sid es s'
      in (s'', out @ out'))"

section \<open>Example states\<close>

definition server0 :: server where
  "server0 = \<lparr>rooms = [], sockets = [], adapter = [], timers = []\<rparr>"

text \<open>A clock and random source that yield the candidate \<open>ABC123\<close> at every call.\<close>

definition rd_abc :: "nat \<Rightarrow> int \<times> string" where
  "rd_abc k = (1699999973112, ''0.123xyz'')"

definition join_data :: "string \<Rightarrow> jsval" where
  "join_data r = Obj [(''roomId'', Str r), (''user'', Obj [(''name'', Str ''Ann'')])]"

definition server_room :: server where
  "server_room = fst (post_api_rooms toUpperCase_ascii 1699999973112 rd_abc (Obj []) server0)"

text \<open>Connections A, B and C; A and B have joined room \<open>ABC123\<close>, C has joined nothing.\<close>

definition server_AB :: server where
  "server_AB =
     fst (on_join_room toUpperCase_ascii 1699999975000 ''B'' (join_data ''abc123'')
       (fst (on_join_room toUpperCase_ascii 1699999974000 ''A'' (join_data ''ABC123'')
          (connection ''C'' (connection ''B'' (connection ''A'' server_room))))))"

text \<open>The same server after a snapshot has been saved for room \<open>ABC123\<close>.\<close>

definition server_saved :: server where
  "server_saved =
     fst (on_save_canvas_state 1699999976000 ''B''
            (Obj [(''roomId'', Str ''ABC123''), (''canvasData'', Str ''data:image/png;base64,AAAA'')])
            server_AB)"

text \<open>
  The whiteboard of connection A in room \<open>ABC123\<close> after three committed edits, a blank
  whiteboard, and a stand-in for \<^verbatim>\<open>canvas.toDataURL\<close>. Surfaces are numbered; 0 is the
  white surface.
\<close>

definition wb_A :: "nat whiteboard" where
  "wb_A = \<lparr>canvas = Some 3, history = [1, 2, 3], historyIndex = 2, canEdit = True,
           room_id = Some ''ABC123''\<rparr>"

definition wb_empty :: "nat whiteboard" where
  "wb_empty = \<lparr>canvas = Some 0, history = [], historyIndex = - 1, canEdit = True,
               room_id = Some ''ABC123''\<rparr>"

definition url :: "nat \<Rightarrow> string" where
  "url px = ''data:'' @ toString36 (int px)"

text \<open>
  A join payload whose \<open>userName\<close> is an object with an own \<open>toString\<close> property, and
  drawing payloads naming the socket id of connection C and the room id in lower case.
\<close>

definition join_data_unprintable :: "string \<Rightarrow> jsval" where
  "join_data_unprintable r =
     Obj [(''roomId'', Str r), (''userName'', Obj [(''toString'', Str ''x'')])]"


definition stroke :: jsval where
  "stroke = Obj [(''roomId'', Str ''ABC123''), (''tool'', Str ''pen''), (''color'', Str ''#000000'')]"

text \<open>
  Room \<open>ABC123\<close> after its only member A has disconnected at time 1700000000000, and
  the same room after connection B has sent it a drawing event one millisecond later.
\<close>

definition server_emptied :: server where
  "server_emptied =
     run_server toUpperCase_ascii
                [(1699999974000, Connect ''A''), (1699999974000, Connect ''B''),
                 (1699999975000, Inbound ''A'' ''join-room'' (join_data ''ABC123'')),
                 (1700000000000, Inbound ''A'' ''disconnect'' Undefined)] server_room"

definition server_refreshed :: server where
  "server_refreshed =
     run_server toUpperCase_ascii [(1700000000001, Inbound ''B'' ''drawing'' stroke)] server_emptied"

text \<open>
  A save payload for room \<open>ABC123\<close>, a clock and random source whose first candidate is
  \<open>ABC123\<close> and whose later candidates differ from it, and a run of events none of which
  is a clear or a save: the creation request in it collides once with \<open>ABC123\<close> and
  registers another identifier.
\<close>

definition save_data :: "string \<Rightarrow> jsval" where
  "save_data state = Obj [(''roomId'', Str ''ABC123''), (''canvasData'', Str state)]"

definition rd_retry :: "nat \<Rightarrow> int \<times> string" where
  "rd_retry k = (if k = 0 then (1699999973112, ''0.123xyz'') else (1699999980000 + int k, ''0.7q3abc''))"

definition quiet_trace :: "(int \<times> step) list" where
  "quiet_trace =
     [(1699999977000, Inbound ''A'' ''drawing'' stroke),
      (1699999978000, Inbound ''A'' ''undo'' (Obj [(''roomId'', Str ''ABC123'')])),
      (1699999979000, Inbound ''B'' ''disconnect'' Undefined),
      (1699999980000, Post rd_retry (Obj [(''roomName'', Str ''Other'')]))]"

section \<open>Joining an unregistered room\<close>

text \<open>
  Claim C10 says that every join request naming an unregistered room is answered with
  a room-error that carries the requested id and the list of known ids. The first log
  line of the handler converts \<open>userName\<close> to a string before the room is tested. For a
  request whose \<open>userName\<close> is an object with its own \<open>toString\<close> property the conversion
  throws, and the catch block answers with the room-error \<open>Failed to join room\<close>, which
  carries neither the requested id nor the list.
\<close>

theorem join_unprintable_name_counterexample:
  "get_prop (join_data_unprintable ''zzzzzz'') ''roomId'' = Some (Str ''zzzzzz'')
   \<and> map_of (rooms server_room) (toUpperCase_ascii ''zzzzzz'') = None
   \<and> on_join_room toUpperCase_ascii 1699999974000 ''A'' (join_data_unprintable ''zzzzzz'') server_room
       = (server_room, [(''A'', RoomErrorFailed)])"
  by code_simp

text \<open>
  Claim C10 as amended. A join request whose upper-cased room id is not in the table
  makes the gateway emit exactly one room-error event, to the caller only, and return
  the server state unchanged, so no member is added, no room is created or modified, and
  no other connection receives anything. When the \<open>userName\<close> of the request can be
  converted to a string, the event carries the upper-cased requested id and the keys of
  the table; when it cannot, the event is the room-error \<open>Failed to join room\<close>.
\<close>

theorem join_unknown_room:
  assumes "get_prop data ''roomId'' = Some (Str r)"
    and "map_of (rooms s) (toUpperCase r) = None"
  shows "on_join_room toUpperCase now sid data s
           = (s, [(sid, if string_throws (optprop data ''userName'') then RoomErrorFailed
                        else RoomNotFound (toUpperCase r) (map fst (rooms s)))])"
  using assms by (simp add: on_join_room_def Let_def)

theorem join_unknown_room_witness:
  "get_prop (join_data ''zzzzzz'') ''roomId'' = Some (Str ''zzzzzz'')
   \<and> map_of (rooms server_room) (toUpperCase_ascii ''zzzzzz'') = None
   \<and> on_join_room toUpperCase_ascii 1699999974000 ''A'' (join_data ''zzzzzz'') server_room
       = (server_room, [(''A'', RoomNotFound ''ZZZZZZ'' [''ABC123''])])"
proof -
  have h1: "get_prop (join_data ''zzzzzz'') ''roomId'' = Some (Str ''zzzzzz'')"
    by code_simp
  have h2: "map_of (rooms server_room) (toUpperCase_ascii ''zzzzzz'') = None"
    by code_simp
  have p: "string_throws (optprop (join_data ''zzzzzz'') ''userName'') = False"
    by code_simp
  have u: "toUpperCase_ascii ''zzzzzz'' = ''ZZZZZZ''"
    by code_simp
  have k: "map fst (rooms server_room) = [''ABC123'']"
    by code_simp
  from join_unknown_room [where toUpperCase = toUpperCase_ascii and now = 1699999974000
      and sid = "''A''", OF h1 h2] h1 h2 show ?thesis
    by (simp only: p u k simp_thms if_False)
qed

section \<open>Relay of drawing events\<close>

lemma map_of_rooms_modify:
  "map_of (rooms_modify f k rs) x =
     (if k = Str x then map_option f (map_of rs x) else map_of rs x)"
  by (cases k) (auto simp: update_conv' split: option.splits)




text \<open>
  What a successful join does to the group and to the member list: the connection is
  registered under the upper-cased room id, and a user record with its socket id is
  appended to the room.
\<close>

lemma join_registers_group:
  assumes "get_prop data ''roomId'' = Some (Str r)"
    and "\<not> string_throws (optprop data ''userName'')"
    and "map_of (rooms s) (toUpperCase r) = Some room"
  shows "(sid, toUpperCase r) \<in> set (adapter (fst (on_join_room toUpperCase now sid data s)))"
    and "map_option (map id_user \<circ> users)
           (map_of (rooms (fst (on_join_room toUpperCase now sid data s))) (toUpperCase r))
         = Some (map id_user (users room) @ [sid])"
  using assms by (simp_all add: on_join_room_def Let_def update_conv')




text \<open>
  Claim C7 says that the gateway relays a drawing event only for a sender that is a
  member of the room and otherwise leaves the room alone. The handler has no such test:
  connection C, which never joined room \<open>ABC123\<close>, sends an event naming it; both
  members receive the event and the room's last-activity moves.
\<close>

theorem nonmember_drawing_counterexample:
  "map_option (map id_user \<circ> users) (map_of (rooms server_AB) ''ABC123'') = Some [''A'', ''B'']
   \<and> (''C'', ''ABC123'') \<notin> set (adapter server_AB)
   \<and> get_prop stroke ''roomId'' = Some (Str ''ABC123'')
   \<and> snd (on_drawing 1699999976000 ''C'' stroke server_AB)
        = [(''B'', Drawing stroke), (''A'', Drawing stroke)]
   \<and> map_option lastActivity (map_of (rooms server_AB) ''ABC123'') = Some (Some 1699999975000)
   \<and> map_option lastActivity
        (map_of (rooms (fst (on_drawing 1699999976000 ''C'' stroke server_AB))) ''ABC123'')
        = Some (Some 1699999976000)"
  by code_simp

text \<open>
  Claim C7 as amended. The gateway does not test the sender's membership. For every
  sender, a drawing event whose \<open>roomId\<close> is a non-empty string \<open>r\<close> is emitted to every
  live connection registered under \<open>r\<close> other than the sender, which is the whole group
  when the sender is not registered under \<open>r\<close>. The only change to the state is that the
  last-activity of room \<open>r\<close>, if registered, becomes the current time; every other room
  is left as it was.
\<close>

theorem drawing_no_membership_check:
  assumes "get_prop data ''roomId'' = Some (Str r)" and "r \<noteq> []"
  shows "snd (on_drawing now sid data s) = emit_to (to_room s sid r) (Drawing data)
    \<and> ((sid, r) \<notin> set (adapter s) \<longrightarrow>
          to_room s sid r = filter (\<lambda>t. (t, r) \<in> set (adapter s)) (sockets s))
    \<and> fst (on_drawing now sid data s)
        = s\<lparr>rooms := (case map_of (rooms s) r of None \<Rightarrow> rooms s
                       | Some room \<Rightarrow> AList.update r (room\<lparr>lastActivity := Some now\<rparr>) (rooms s))\<rparr>
    \<and> (\<forall>k. k \<noteq> r \<longrightarrow>
          map_of (rooms (fst (on_drawing now sid data s))) k = map_of (rooms s) k)"
proof -
  have "(sid, r) \<notin> set (adapter s) \<Longrightarrow>
          to_room s sid r = filter (\<lambda>t. (t, r) \<in> set (adapter s)) (sockets s)"
    unfolding to_room_def by (rule filter_cong) auto
  with assms show ?thesis
    by (simp add: on_drawing_def update_conv' split: option.split)
qed

theorem drawing_no_membership_check_witness:
  "get_prop stroke ''roomId'' = Some (Str ''ABC123'') \<and> ''ABC123'' \<noteq> []
   \<and> (''C'', ''ABC123'') \<notin> set (adapter server_AB)
   \<and> snd (on_drawing 1699999976000 ''C'' stroke server_AB)
        = [(''B'', Drawing stroke), (''A'', Drawing stroke)]
   \<and> map_of (rooms (fst (on_drawing 1699999976000 ''C'' stroke server_AB))) ''OTHER1''
        = map_of (rooms server_AB) ''OTHER1''"
proof -
  have h1: "get_prop stroke ''roomId'' = Some (Str ''ABC123'')"
    by code_simp
  have h2: "''ABC123'' \<noteq> []"
    by simp
  have h3: "(''C'', ''ABC123'') \<notin> set (adapter server_AB)"
    by code_simp
  have g: "emit_to (filter (\<lambda>t. (t, ''ABC123'') \<in> set (adapter server_AB)) (sockets server_AB))
             (Drawing stroke) = [(''B'', Drawing stroke), (''A'', Drawing stroke)]"
    by code_simp
  note a = drawing_no_membership_check [OF h1 h2, of 1699999976000 "''C''" server_AB]
  from a h3 have "snd (on_drawing 1699999976000 ''C'' stroke server_AB)
        = [(''B'', Drawing stroke), (''A'', Drawing stroke)]"
    by (simp add: g)
  moreover from a have "\<forall>k. k \<noteq> ''ABC123'' \<longrightarrow>
      map_of (rooms (fst (on_drawing 1699999976000 ''C'' stroke server_AB))) k
        = map_of (rooms server_AB) k"
    by blast
  then have "map_of (rooms (fst (on_drawing 1699999976000 ''C'' stroke server_AB))) ''OTHER1''
        = map_of (rooms server_AB) ''OTHER1''"
    by simp
  ultimately show ?thesis
    using h1 h2 h3 by simp
qed

section \<open>Room creation\<close>

text \<open>
  The loop returns a registered identifier only when the first candidate and all ten
  retries are registered.
\<close>

lemma retry_loop_collision:
  assumes "map_of rs (retry_loop up rs rd roomId attempts) \<noteq> None" and "attempts \<le> 10"
  shows "map_of rs roomId \<noteq> None
         \<and> (\<forall>k. attempts < k \<and> k \<le> 10 \<longrightarrow> map_of rs (generateRoomId up (rd k)) \<noteq> None)"
  using assms
proof (induction up rs rd roomId attempts rule: retry_loop.induct)
  case (1 up rs rd roomId attempts)
  show ?case
  proof (cases "map_of rs roomId \<noteq> None \<and> attempts < 10")
    case True
    then have e: "retry_loop up rs rd roomId attempts
        = retry_loop up rs rd (generateRoomId up (rd (Suc attempts))) (Suc attempts)"
      by (subst retry_loop.simps) simp
    from "1.IH" [OF True] "1.prems" True e
    have "map_of rs (generateRoomId up (rd (Suc attempts))) \<noteq> None
          \<and> (\<forall>k. Suc attempts < k \<and> k \<le> 10 \<longrightarrow> map_of rs (generateRoomId up (rd k)) \<noteq> None)"
      by simp
    with True show ?thesis
      by (metis Suc_lessI)
  next
    case False
    then have "retry_loop up rs rd roomId attempts = roomId"
      by (subst retry_loop.simps) auto
    with "1.prems" False show ?thesis
      by auto
  qed
qed

text \<open>
  Claim C2 asks that a creation request which exhausts its ten retries fail with an
  error rather than register an identifier already in the table. The retry loop stops
  after ten retries and the room is stored under whatever candidate is current. With a
  clock and random source that yield \<open>ABC123\<close> at each of the eleven calls, two
  successive requests both answer \<open>ABC123\<close>, and a request served while \<open>ABC123\<close> has
  members A and B answers \<open>ABC123\<close> with success and replaces that room by a fresh,
  empty one.
\<close>

theorem create_room_collision:
  "snd (post_api_rooms toUpperCase_ascii 1699999973112 rd_abc (Obj []) server0)
     = Created ''ABC123'' (Str ''Room ABC123'') 1
   \<and> map_option (map id_user \<circ> users) (map_of (rooms server_AB) ''ABC123'') = Some [''A'', ''B'']
   \<and> snd (post_api_rooms toUpperCase_ascii 1699999980000 rd_abc (Obj []) server_AB)
     = Created ''ABC123'' (Str ''Room ABC123'') 1
   \<and> map_option users (map_of (rooms (fst (post_api_rooms toUpperCase_ascii 1699999980000 rd_abc (Obj []) server_AB))) ''ABC123'')
     = Some []
   \<and> map_option createdAt (map_of (rooms (fst (post_api_rooms toUpperCase_ascii 1699999980000 rd_abc (Obj []) server_AB))) ''ABC123'')
     = Some 1699999980000"
  by code_simp


section \<open>Idle cleanup\<close>

text \<open>
  Claim C3 says that a room whose last-activity is refreshed before the grace period
  elapses is not deleted when the cleanup timer fires. The callback compares the time
  of firing, not the due time, with the last activity, and \<^verbatim>\<open>setTimeout\<close> fires no
  earlier than the due time but may fire later. Room \<open>ABC123\<close> is emptied at
  1700000000000, refreshed one millisecond later, and its timer fires two milliseconds
  after the due time: the room is deleted.
\<close>

theorem cleanup_late_timer_counterexample:
  "map_option users (map_of (rooms server_emptied) ''ABC123'') = Some []
   \<and> timers server_emptied = [(1700000000000 + grace, ''ABC123'')]
   \<and> map_option lastActivity (map_of (rooms server_refreshed) ''ABC123'') = Some (Some 1700000000001)
   \<and> 1700000000001 < 1700000000000 + grace
   \<and> 1700000000000 + grace \<le> 1700003600002
   \<and> map_of (rooms (fire_timer 1700003600002 (1700003600000, ''ABC123'') server_refreshed)) ''ABC123''
       = None"
  by code_simp

text \<open>Rooms other than the one the timer was set for are never touched.\<close>

lemma cleanup_callback_other:
  "k \<noteq> rid \<Longrightarrow> map_of (rooms (cleanup_callback now rid s)) k = map_of (rooms s) k"
  by (simp add: cleanup_callback_def Let_def delete_conv' split: option.split)

text \<open>
  Claim C3 as amended. When the cleanup callback runs for a registered room, the room
  is deleted if and only if it has zero members and its last-activity lies more than
  the grace duration before the time of firing. Hence a room that has a member at that
  time is kept, a room whose last refresh lies at most the grace duration before the
  time of firing is kept, and a room refreshed at or after the time its cleanup was
  scheduled is kept by a timer that fires exactly when due. No other room is affected.
\<close>

theorem cleanup_deletes_iff:
  assumes "map_of (rooms s) rid = Some room"
  shows "(map_of (rooms (cleanup_callback now rid s)) rid = None
            \<longleftrightarrow> users room = []
                \<and> now - (case lastActivity room of None \<Rightarrow> 0 | Some t \<Rightarrow> t) > grace)
    \<and> (users room \<noteq> [] \<longrightarrow> cleanup_callback now rid s = s)
    \<and> (\<forall>t. lastActivity room = Some t \<longrightarrow> now \<le> t + grace \<longrightarrow> cleanup_callback now rid s = s)
    \<and> (\<forall>t0 t. lastActivity room = Some t \<longrightarrow> t0 \<le> t \<longrightarrow>
           rooms (fire_timer (t0 + grace) (t0 + grace, rid) s) = rooms s)
    \<and> (\<forall>k. k \<noteq> rid \<longrightarrow> map_of (rooms (cleanup_callback now rid s)) k = map_of (rooms s) k)"
  using assms
  by (auto simp: cleanup_callback_def fire_timer_def Let_def delete_conv' split: option.split)


theorem cleanup_deletes_iff_witness:
  "(\<exists>room. map_of (rooms server_refreshed) ''ABC123'' = Some room \<and> users room = []
       \<and> lastActivity room = Some 1700000000001)
   \<and> rooms (fire_timer (1700000000000 + grace) (1700000000000 + grace, ''ABC123'') server_refreshed)
       = rooms server_refreshed
   \<and> map_of (rooms (cleanup_callback (1700000000001 + grace) ''ABC123'' server_refreshed)) ''ABC123''
       \<noteq> None
   \<and> map_of (rooms (cleanup_callback (1700000000002 + grace) ''ABC123'' server_refreshed)) ''ABC123''
       = None"
proof -
  have "map_option (\<lambda>r. (users r, lastActivity r)) (map_of (rooms server_refreshed) ''ABC123'')
          = Some ([], Some 1700000000001)"
    by code_simp
  then obtain room where h: "map_of (rooms server_refreshed) ''ABC123'' = Some room"
    and u: "users room = []" and l: "lastActivity room = Some 1700000000001"
    by (cases "map_of (rooms server_refreshed) ''ABC123''") auto
  note a = cleanup_deletes_iff [OF h]
  from a [of 0] l have "rooms (fire_timer (1700000000000 + grace) (1700000000000 + grace, ''ABC123'')
          server_refreshed) = rooms server_refreshed"
    by simp
  moreover from a [of "1700000000001 + grace"] u l h
  have "map_of (rooms (cleanup_callback (1700000000001 + grace) ''ABC123'' server_refreshed)) ''ABC123''
          \<noteq> None"
    by simp
  moreover from a [of "1700000000002 + grace"] u l
  have "map_of (rooms (cleanup_callback (1700000000002 + grace) ''ABC123'' server_refreshed)) ''ABC123''
          = None"
    by simp
  ultimately show ?thesis
    using h u l by simp
qed

section \<open>The bounded history of the client\<close>

text \<open>Each local operation keeps the history well formed.\<close>

lemma hist_inv_saveToHistory: "hist_inv w \<Longrightarrow> hist_inv (saveToHistory (seen_now w) w)"
  by (auto simp: hist_inv_def saveToHistory_def seen_now_def slice0_def Let_def
      split: option.split if_splits)

lemma hist_inv_canvas [simp]: "hist_inv (w\<lparr>canvas := c\<rparr>) = hist_inv w"
  by (simp add: hist_inv_def)

lemma hist_inv_undo: "hist_inv w \<Longrightarrow> hist_inv (fst (undo f w))"
  by (auto simp: hist_inv_def undo_def js_index_def split: option.split if_splits)

lemma hist_inv_redo: "hist_inv w \<Longrightarrow> hist_inv (fst (redo f w))"
  by (auto simp: hist_inv_def redo_def js_index_def split: option.split if_splits)

lemma hist_inv_apply_op: "hist_inv w \<Longrightarrow> hist_inv (apply_op f x w)"
proof (cases x)
  case (Commit px)
  assume "hist_inv w"
  then have "hist_inv (w\<lparr>canvas := map_option (\<lambda>c. px) (canvas w)\<rparr>)"
    by simp
  from hist_inv_saveToHistory [OF this] Commit show ?thesis
    by (simp add: seen_now_def)
qed (simp_all add: hist_inv_undo hist_inv_redo)

lemma hist_inv_run_ops: "hist_inv w \<Longrightarrow> hist_inv (run_ops f ops w)"
  unfolding run_ops_def by (induction ops arbitrary: w) (simp_all add: hist_inv_apply_op)

text \<open>
  A commit made with the cursor at the last index appends, and drops the oldest
  snapshot once fifty are held; a run of commits therefore keeps the newest fifty.
\<close>

lemma commit_at_end:
  assumes "canvas w \<noteq> None" and "length (history w) \<le> 50"
    and "historyIndex w = int (length (history w)) - 1"
  shows "history (apply_op f (Commit px) w)
           = (if length (history w) = 50 then tl (history w) @ [px] else history w @ [px])"
    and "historyIndex (apply_op f (Commit px) w)
           = int (length (history (apply_op f (Commit px) w))) - 1"
    and "canvas (apply_op f (Commit px) w) \<noteq> None"
  using assms
  by (cases "history w"; auto simp: saveToHistory_def seen_now_def slice0_def Let_def
        split: option.split)+

lemma commits_at_end:
  assumes "canvas w \<noteq> None" and "length (history w) \<le> 50"
    and "historyIndex w = int (length (history w)) - 1"
  shows "history (run_ops f (map Commit pxs) w)
           = drop (length (history w) + length pxs - 50) (history w @ pxs)
       \<and> historyIndex (run_ops f (map Commit pxs) w)
           = int (length (history (run_ops f (map Commit pxs) w))) - 1"
  using assms
proof (induction pxs arbitrary: w)
  case Nil
  then show ?case by (simp add: run_ops_def)
next
  case (Cons px pxs)
  let ?w = "apply_op f (Commit px) w"
  note c = commit_at_end [OF Cons.prems, of f px]
  have len: "length (history ?w) \<le> 50"
    using Cons.prems(2) by (simp add: c(1) del: apply_op.simps)
  have run: "run_ops f (map Commit (px # pxs)) w = run_ops f (map Commit pxs) ?w"
    by (simp add: run_ops_def)
  have "drop (length (history ?w) + length pxs - 50) (history ?w @ pxs)
          = drop (length (history w) + length (px # pxs) - 50) (history w @ px # pxs)"
  proof (cases "length (history w) = 50")
    case True
    then show ?thesis
      by (cases "history w") (simp_all add: c(1) drop_Suc del: apply_op.simps)
  next
    case False
    with Cons.prems(2) have "length (history w) < 50" by simp
    then show ?thesis by (simp add: c(1) del: apply_op.simps)
  qed
  with Cons.IH [OF c(3) len c(2)] show ?case
    by (simp only: run)
qed

text \<open>
  Claim C4. Starting from the empty history with cursor \<open>-1\<close>, after any sequence of
  commit, undo and redo the history holds at most 50 snapshots and the cursor is \<open>-1\<close>
  if the history is empty and a valid index otherwise. When the canvas exists, sixty
  commits in sequence leave exactly the last fifty snapshots in their order, the ten
  oldest having been dropped first-in first-out, with the cursor at the last index 49.
\<close>

theorem history_invariant:
  "(history w0 = [] \<and> historyIndex w0 = - 1 \<longrightarrow> hist_inv (run_ops toDataURL ops w0))
   \<and> (history w0 = [] \<and> historyIndex w0 = - 1 \<and> canvas w0 \<noteq> None \<and> length pxs = 60 \<longrightarrow>
        history (run_ops toDataURL (map Commit pxs) w0) = drop 10 pxs
        \<and> length (history (run_ops toDataURL (map Commit pxs) w0)) = 50
        \<and> historyIndex (run_ops toDataURL (map Commit pxs) w0) = 49)"
proof (intro conjI impI)
  assume "history w0 = [] \<and> historyIndex w0 = - 1"
  then have "hist_inv w0" by (simp add: hist_inv_def)
  then show "hist_inv (run_ops toDataURL ops w0)" by (rule hist_inv_run_ops)
next
  assume a: "history w0 = [] \<and> historyIndex w0 = - 1 \<and> canvas w0 \<noteq> None \<and> length pxs = 60"
  then have c: "history (run_ops toDataURL (map Commit pxs) w0) = drop 10 pxs
       \<and> historyIndex (run_ops toDataURL (map Commit pxs) w0)
           = int (length (history (run_ops toDataURL (map Commit pxs) w0))) - 1"
    using commits_at_end [of w0 toDataURL pxs] by simp
  from c show "history (run_ops toDataURL (map Commit pxs) w0) = drop 10 pxs" by simp
  from c a show "length (history (run_ops toDataURL (map Commit pxs) w0)) = 50" by simp
  from c a show "historyIndex (run_ops toDataURL (map Commit pxs) w0) = 49" by simp
qed


theorem history_invariant_witness:
  "history wb_empty = [] \<and> historyIndex wb_empty = - 1 \<and> canvas wb_empty \<noteq> None
   \<and> length [0..<60] = 60
   \<and> hist_inv (run_ops url [Commit 1, Commit 2, Undo, Redo, Undo, Undo, Commit 3, Redo] wb_empty)
   \<and> history (run_ops url (map Commit [0..<60]) wb_empty) = [10..<60]
   \<and> length (history (run_ops url (map Commit [0..<60]) wb_empty)) = 50
   \<and> historyIndex (run_ops url (map Commit [0..<60]) wb_empty) = 49"
proof -
  have h: "history wb_empty = [] \<and> historyIndex wb_empty = - 1 \<and> canvas wb_empty \<noteq> None"
    by (simp add: wb_empty_def)
  have l: "length [0..<60] = 60"
    by simp
  have d: "drop 10 [0..<60] = [10..<60]"
    by simp
  from history_invariant [of wb_empty url _ "[0..<60]"] h l show ?thesis
    by (simp add: d del: upt_rec_numeral)
qed

section \<open>Remote events and the history\<close>

text \<open>
  Claim C9 says that no remotely originated event changes the length of the local
  history. The listener for a remote clear calls \<open>clearCanvas\<close>, which saves the cleared
  surface to the history whatever the origin of the clear; only the emission is
  suppressed. On a whiteboard holding three snapshots the history afterwards holds one
  snapshot when the listener's closure dates from the mount of the component, and four
  if it saw the current state.
\<close>

theorem remote_clear_counterexample:
  "history wb_A = [1, 2, 3]
   \<and> history (listen_clear_canvas 0 ([], - 1) wb_A) = [0]
   \<and> history (listen_clear_canvas 0 (seen_now wb_A) wb_A) = [1, 2, 3, 0]"
  by (simp add: wb_A_def listen_clear_canvas_def clearCanvas_def saveToHistory_def seen_now_def
      slice0_def)

text \<open>
  Claim C9 as amended. Handling a relayed drawing event or a remote canvas-state update
  leaves the history sequence and the cursor unchanged. A remote clear directive is
  handled by \<open>clearCanvas\<close> without emission: when the canvas exists it saves the white
  surface to the history exactly as \<open>saveToHistory\<close> does for the state its closure has
  seen, and without a canvas it changes nothing.
\<close>

theorem remote_events_history:
  "history (listen_drawing drawOnCanvas data w) = history w
   \<and> historyIndex (listen_drawing drawOnCanvas data w) = historyIndex w
   \<and> history (listen_canvas_state drawImage imageData w) = history w
   \<and> historyIndex (listen_canvas_state drawImage imageData w) = historyIndex w
   \<and> (canvas w = None \<longrightarrow> listen_clear_canvas white seen w = w)
   \<and> (canvas w \<noteq> None \<longrightarrow>
        listen_clear_canvas white seen w = saveToHistory seen (w\<lparr>canvas := Some white\<rparr>)
        \<and> history (listen_clear_canvas white seen w)
            = (let pushed = slice0 (snd seen + 1) (fst seen) @ [white]
               in if length pushed > 50 then tl pushed else pushed))"
  by (auto simp: listen_drawing_def listen_canvas_state_def listen_clear_canvas_def
      clearCanvas_def saveToHistory_def Let_def)

theorem remote_events_history_witness:
  "canvas wb_A \<noteq> None
   \<and> history (listen_drawing (\<lambda>d px. px + 1) stroke wb_A) = [1, 2, 3]
   \<and> history (listen_canvas_state (\<lambda>d px. 7) (Str (url 7)) wb_A) = [1, 2, 3]
   \<and> history (listen_clear_canvas 0 ([], - 1) wb_A) = [0]
   \<and> listen_clear_canvas 0 ([], - 1) (wb_A\<lparr>canvas := None\<rparr>) = wb_A\<lparr>canvas := None\<rparr>"
proof -
  have h: "canvas wb_A \<noteq> None"
    by (simp add: wb_A_def)
  have n: "canvas (wb_A\<lparr>canvas := None\<rparr>) = None"
    by simp
  have k: "history wb_A = [1, 2, 3]"
    by (simp add: wb_A_def)
  note a = remote_events_history [of "\<lambda>d px. px + 1" stroke wb_A "\<lambda>d px. 7" "Str (url 7)" 0 "([], - 1)"]
  note b = remote_events_history [of "\<lambda>d px. px + 1" stroke "wb_A\<lparr>canvas := None\<rparr>"
      "\<lambda>d px. 7" "Str (url 7)" 0 "([], - 1)"]
  have e: "(let pushed = slice0 (snd ([], - 1) + 1) (fst ([], - 1)) @ [0::nat]
             in if length pushed > 50 then tl pushed else pushed) = [0]"
    by (simp add: slice0_def)
  from a h have "history (listen_clear_canvas 0 ([], - 1) wb_A) = [0]"
    unfolding e by blast
  moreover from b n have "listen_clear_canvas 0 ([], - 1) (wb_A\<lparr>canvas := None\<rparr>) = wb_A\<lparr>canvas := None\<rparr>"
    by blast
  moreover from a k have "history (listen_drawing (\<lambda>d px. px + 1) stroke wb_A) = [1, 2, 3]"
    and "history (listen_canvas_state (\<lambda>d px. 7) (Str (url 7)) wb_A) = [1, 2, 3]"
    by simp_all
  ultimately show ?thesis
    using h by simp
qed

section \<open>Undo and clear, end to end\<close>

text \<open>
  Claim C6 says that the surface a client renders on undo reaches the other members
  of its room. Client A, in room \<open>ABC123\<close> with B, undoes with the cursor at 2: the
  cursor becomes 1, snapshot 2 is rendered, and a \<open>canvas-state\<close> event carrying the room
  id and the rendered surface is emitted. The server registers no listener for
  \<open>canvas-state\<close>, so the event is dropped: B receives nothing and the server state is
  unchanged.
\<close>

theorem undo_state_not_relayed:
  "undo url wb_A
     = (wb_A\<lparr>historyIndex := 1, canvas := Some 2\<rparr>,
        [(''canvas-state'', Obj [(''roomId'', Str ''ABC123''), (''imageData'', Str (url 2))])])
   \<and> to_room server_AB ''A'' ''ABC123'' = [''B'']
   \<and> deliver toUpperCase_ascii 1699999977000 ''A'' (snd (undo url wb_A)) server_AB = (server_AB, [])"
  by code_simp

text \<open>Whatever the payload and the state, a \<open>canvas-state\<close> event is dropped.\<close>

lemma canvas_state_dropped: "server_on toUpperCase now sid ''canvas-state'' data s = (s, [])"
  by (simp add: server_on_def)

text \<open>
  Claim C8 says that a clear issued in a room reaches the other members of that room,
  nulls the stored snapshot and refreshes last-activity, also for the clear that a
  client's own clear action emits. The client emits the bare room id as payload, while
  the handler reads the \<open>roomId\<close> property of the payload, which a string does not have:
  the clear of client A in room \<open>ABC123\<close> falls into the global branch, reaches
  connection C outside the room as well as B, and leaves the stored snapshot and the
  last-activity of the room as they were.
\<close>

theorem local_clear_end_to_end:
  "snd (clearCanvas 0 True (seen_now wb_A) wb_A) = [(''clear-canvas'', Str ''ABC123'')]
   \<and> to_room server_saved ''A'' ''ABC123'' = [''B'']
   \<and> map_option canvasData (map_of (rooms server_saved) ''ABC123'')
       = Some (Str ''data:image/png;base64,AAAA'')
   \<and> deliver toUpperCase_ascii 1699999977000 ''A'' (snd (clearCanvas 0 True (seen_now wb_A) wb_A)) server_saved
       = (server_saved, [(''C'', ClearCanvas), (''B'', ClearCanvas)])"
  by code_simp

text \<open>
  On a payload that is an object with a non-empty string \<open>roomId\<close> the handler does
  what the claim says.
\<close>

lemma clear_canvas_in_room:
  assumes "optprop data ''roomId'' = Str r" and "r \<noteq> []"
  shows "snd (on_clear_canvas now sid data s) = emit_to (to_room s sid r) ClearCanvas"
    and "map_of (rooms (fst (on_clear_canvas now sid data s))) r
           = map_option (\<lambda>room. room\<lparr>canvasData := Null, lastActivity := Some now\<rparr>)
               (map_of (rooms s) r)"
  using assms by (simp_all add: on_clear_canvas_def update_conv' split: option.split)

section \<open>Saving the surface and joining later\<close>

text \<open>How each handler treats the stored snapshot of a room.\<close>

lemma snapshot_connection [simp]: "snapshot_of (connection sid s) rid = snapshot_of s rid"
  by (simp add: snapshot_of_def connection_def)

lemma snapshot_join:
  "snapshot_of (fst (on_join_room toUpperCase now sid data s)) rid = snapshot_of s rid"
  by (auto simp: snapshot_of_def on_join_room_def Let_def update_conv'
      split: option.split jsval.split)

lemma snapshot_drawing: "snapshot_of (fst (on_drawing now sid data s)) rid = snapshot_of s rid"
  by (auto simp: snapshot_of_def on_drawing_def map_of_rooms_modify option.map_comp comp_def
      split: option.split)

lemma snapshot_undo: "snapshot_of (fst (on_undo sid data s)) rid = snapshot_of s rid"
  by (simp add: on_undo_def Let_def)

lemma snapshot_redo: "snapshot_of (fst (on_redo sid data s)) rid = snapshot_of s rid"
  by (simp add: on_redo_def Let_def)

lemma snapshot_clear:
  "optprop data ''roomId'' \<noteq> Str rid \<Longrightarrow>
   snapshot_of (fst (on_clear_canvas now sid data s)) rid = snapshot_of s rid"
  by (auto simp: snapshot_of_def on_clear_canvas_def Let_def map_of_rooms_modify)

lemma snapshot_save_other:
  "optprop data ''roomId'' \<noteq> Str rid \<Longrightarrow>
   snapshot_of (fst (on_save_canvas_state now sid data s)) rid = snapshot_of s rid"
  by (auto simp: snapshot_of_def on_save_canvas_state_def Let_def map_of_rooms_modify optprop_def
      split: option.split)

lemma canvasData_leave_rooms:
  "map_option canvasData (map_of (fst (leave_rooms now sid s rs)) k)
     = map_option canvasData (map_of rs k)"
  by (induction rs) (auto simp: Let_def split: prod.split option.split)

lemma rooms_on_disconnect:
  "rooms (fst (on_disconnect now sid s))
     = fst (leave_rooms now sid
              (s\<lparr>sockets := removeAll sid (sockets s),
                 adapter := filter (\<lambda>m. fst m \<noteq> sid) (adapter s)\<rparr>) (rooms s))"
  by (simp add: on_disconnect_def Let_def split: prod.split)

lemma snapshot_disconnect: "snapshot_of (fst (on_disconnect now sid s)) rid = snapshot_of s rid"
  by (simp add: snapshot_of_def rooms_on_disconnect canvasData_leave_rooms)

lemma snapshot_post:
  assumes "get_prop body ''roomName'' = None
           \<or> retry_loop toUpperCase (rooms s) rd (generateRoomId toUpperCase (rd 0)) 0 \<noteq> rid"
  shows "snapshot_of (fst (post_api_rooms toUpperCase now rd body s)) rid = snapshot_of s rid"
  using assms
  by (auto simp: snapshot_of_def post_api_rooms_def Let_def update_conv' split: option.split)

lemma snapshot_fire:
  "snapshot_of (fire_timer now tm s) rid = snapshot_of s rid
   \<or> snapshot_of (fire_timer now tm s) rid = None"
  by (auto simp: snapshot_of_def fire_timer_def cleanup_callback_def Let_def delete_conv'
      split: option.split)

lemma snapshot_step:
  "leaves_snapshot toUpperCase rid st s \<Longrightarrow>
   snapshot_of (step_server toUpperCase st s) rid = snapshot_of s rid
   \<or> snapshot_of (step_server toUpperCase st s) rid = None"
proof (cases st)
  case (Pair now x)
  assume l: "leaves_snapshot toUpperCase rid st s"
  show ?thesis
  proof (cases x)
    case (Connect sid)
    with Pair show ?thesis by simp
  next
    case (Inbound sid ev data)
    with Pair l show ?thesis
      by (simp add: server_on_def snapshot_join snapshot_drawing snapshot_undo snapshot_redo
          snapshot_clear snapshot_save_other snapshot_disconnect split: if_splits)
  next
    case (Post rd body)
    with Pair l show ?thesis by (simp add: snapshot_post)
  next
    case (Fire tm)
    with Pair show ?thesis by (simp add: snapshot_fire)
  qed
qed

lemma snapshot_run:
  assumes "quiet_run toUpperCase rid tr s"
    and "snapshot_of s rid = Some v \<or> snapshot_of s rid = None"
  shows "snapshot_of (run_server toUpperCase tr s) rid = Some v
         \<or> snapshot_of (run_server toUpperCase tr s) rid = None"
  using assms unfolding run_server_def
proof (induction tr arbitrary: s)
  case Nil
  then show ?case by simp
next
  case (Cons st tr)
  from Cons.prems(1) have l: "leaves_snapshot toUpperCase rid st s"
    and r: "quiet_run toUpperCase rid tr (step_server toUpperCase st s)"
    by simp_all
  from snapshot_step [OF l] Cons.prems(2)
  have "snapshot_of (step_server toUpperCase st s) rid = Some v
        \<or> snapshot_of (step_server toUpperCase st s) rid = None"
    by auto
  from Cons.IH [OF r this] show ?case by simp
qed

text \<open>
  Claim C5 says that after a save every later successful join emits a load event with
  exactly the stored state. The join handler emits the load event only for a truthy
  snapshot: after the empty string has been saved for room \<open>ABC123\<close>, a successful join
  of C emits the room-joined and user-joined events and no load event.
\<close>

theorem save_empty_state_counterexample:
  "map_of (rooms server_AB) ''ABC123'' \<noteq> None
   \<and> snapshot_of (fst (on_save_canvas_state 1699999976000 ''B'' (save_data []) server_AB)) ''ABC123''
       = Some (Str [])
   \<and> emission_names
        (snd (on_join_room toUpperCase_ascii 1699999977000 ''C'' (join_data ''abc123'')
               (fst (on_save_canvas_state 1699999976000 ''B'' (save_data []) server_AB))))
       = [(''C'', ''room-joined''), (''B'', ''user-joined''), (''A'', ''user-joined'')]"
  by code_simp

lemma snapshot_save:
  assumes "map_of (rooms s) rid = Some room"
    and "get_prop data ''roomId'' = Some (Str rid)"
  shows "snapshot_of (fst (on_save_canvas_state now sid data s)) rid
           = Some (optprop data ''canvasData'')"
  using assms
  by (simp add: snapshot_of_def on_save_canvas_state_def Let_def update_conv')

text \<open>
  Claim C5 as amended. Let a save whose \<open>roomId\<close> is a registered room \<open>rid\<close> and whose
  state is truthy (a non-empty string) be handled, and let any number of steps follow,
  none of them a clear or a save naming \<open>rid\<close> and none a creation request that registers
  \<open>rid\<close> anew. Then every join whose upper-cased room id is \<open>rid\<close>, whose \<open>userName\<close> can be
  converted to a string, and which finds the room registered appends the new member,
  emits to the joiner the room-joined confirmation followed by a load event carrying
  exactly the saved state, and emits user-joined to the other connections of the group.
\<close>

theorem save_then_join:
  fixes s :: server and sdata jdata :: jsval and t0 now :: int and sid0 sid :: string
    and tr :: "(int \<times> step) list" and toUpperCase :: "string \<Rightarrow> string"
  defines "s1 \<equiv> fst (on_save_canvas_state t0 sid0 sdata s)"
  defines "s2 \<equiv> run_server toUpperCase tr s1"
  defines "s3 \<equiv> fst (on_join_room toUpperCase now sid jdata s2)"
  defines "user \<equiv> \<lparr>id_user = sid,
                     name_user = (if truthy (optprop jdata ''userName'')
                                  then optprop jdata ''userName'' else Str ''Anonymous''),
                     joinedAt = now\<rparr>"
  assumes reg: "map_of (rooms s) rid = Some room"
    and save: "get_prop sdata ''roomId'' = Some (Str rid)"
    and state: "truthy (optprop sdata ''canvasData'')"
    and quiet: "quiet_run toUpperCase rid tr s1"
    and join: "get_prop jdata ''roomId'' = Some (Str r)" "toUpperCase r = rid"
    and name: "\<not> string_throws (optprop jdata ''userName'')"
    and hit: "map_of (rooms s2) rid = Some room2"
  shows "snd (on_join_room toUpperCase now sid jdata s2)
           = [(sid, RoomJoined rid (name_room room2) (users room2 @ [user])),
              (sid, LoadCanvas (optprop sdata ''canvasData''))]
             @ emit_to (to_room s3 sid rid) (UserJoined user (users room2 @ [user]))
       \<and> map_of (rooms s3) rid
           = Some (room2\<lparr>users := users room2 @ [user], lastActivity := Some now\<rparr>)"
proof -
  have "snapshot_of s1 rid = Some (optprop sdata ''canvasData'')"
    unfolding s1_def using reg save by (rule snapshot_save)
  with quiet have "snapshot_of s2 rid = Some (optprop sdata ''canvasData'') \<or> snapshot_of s2 rid = None"
    unfolding s2_def by (intro snapshot_run) simp_all
  with hit have cd: "canvasData room2 = optprop sdata ''canvasData''"
    by (simp add: snapshot_of_def)
  from join name hit cd state show ?thesis
    unfolding s3_def user_def
    by (simp add: on_join_room_def Let_def update_conv')
qed

theorem save_then_join_witness:
  "map_of (rooms server_AB) ''ABC123'' \<noteq> None
   \<and> get_prop (save_data ''data:image/png;base64,AAAA'') ''roomId'' = Some (Str ''ABC123'')
   \<and> truthy (optprop (save_data ''data:image/png;base64,AAAA'') ''canvasData'')
   \<and> quiet_run toUpperCase_ascii ''ABC123'' quiet_trace
        (fst (on_save_canvas_state 1699999976000 ''B'' (save_data ''data:image/png;base64,AAAA'')
               server_AB))
   \<and> generateRoomId toUpperCase_ascii (rd_retry 0) = ''ABC123''
   \<and> get_prop (join_data ''abc123'') ''roomId'' = Some (Str ''abc123'')
   \<and> toUpperCase_ascii ''abc123'' = ''ABC123''
   \<and> \<not> string_throws (optprop (join_data ''abc123'') ''userName'')
   \<and> map_of (rooms (run_server toUpperCase_ascii quiet_trace
         (fst (on_save_canvas_state 1699999976000 ''B'' (save_data ''data:image/png;base64,AAAA'')
                server_AB)))) ''ABC123'' \<noteq> None
   \<and> (''C'', LoadCanvas (Str ''data:image/png;base64,AAAA''))
       \<in> set (snd (on_join_room toUpperCase_ascii 1699999981000 ''C'' (join_data ''abc123'')
              (run_server toUpperCase_ascii quiet_trace
                (fst (on_save_canvas_state 1699999976000 ''B''
                       (save_data ''data:image/png;base64,AAAA'') server_AB)))))"
proof -
  let ?sd = "save_data ''data:image/png;base64,AAAA''"
  let ?s1 = "fst (on_save_canvas_state 1699999976000 ''B'' ?sd server_AB)"
  let ?s2 = "run_server toUpperCase_ascii quiet_trace ?s1"
  have r0: "map_of (rooms server_AB) ''ABC123'' \<noteq> None"
    by code_simp
  then obtain room where h1: "map_of (rooms server_AB) ''ABC123'' = Some room"
    by blast
  have h2: "get_prop ?sd ''roomId'' = Some (Str ''ABC123'')"
    by code_simp
  have v: "optprop ?sd ''canvasData'' = Str ''data:image/png;base64,AAAA''"
    by code_simp
  have h3: "truthy (optprop ?sd ''canvasData'')"
    by code_simp
  have h4: "quiet_run toUpperCase_ascii ''ABC123'' quiet_trace ?s1"
    by code_simp
  have g: "generateRoomId toUpperCase_ascii (rd_retry 0) = ''ABC123''"
    by code_simp
  have h5: "get_prop (join_data ''abc123'') ''roomId'' = Some (Str ''abc123'')"
    by code_simp
  have h6: "toUpperCase_ascii ''abc123'' = ''ABC123''"
    by code_simp
  have h7: "\<not> string_throws (optprop (join_data ''abc123'') ''userName'')"
    by code_simp
  have r2: "map_of (rooms ?s2) ''ABC123'' \<noteq> None"
    by code_simp
  then obtain room2 where h8: "map_of (rooms ?s2) ''ABC123'' = Some room2"
    by blast
  from save_then_join [where toUpperCase = toUpperCase_ascii and now = 1699999981000
      and sid = "''C''", OF h1 h2 h3 h4 h5 h6 h7 h8]
  have "(''C'', LoadCanvas (Str ''data:image/png;base64,AAAA''))
          \<in> set (snd (on_join_room toUpperCase_ascii 1699999981000 ''C'' (join_data ''abc123'') ?s2))"
    by (simp add: v)
  with r0 h2 h3 h4 g h5 h6 h7 r2 show ?thesis
    by simp
qed

end
